theory Spec2Isabelle
  imports Complex_Main "HOL-Library.AList"
begin

section \<open>Numbers, rectangles and dictionaries\<close>

text \<open>
  Python floats are modelled as exact reals: rounding, infinities and NaN are outside
  the model. Python ints are \<open>int\<close>.

  \<open>pygame.Rect\<close> is a library type with integer fields. A float handed to its
  constructor (or assigned to one of its attributes) is converted by truncation toward zero.
\<close>

definition py_int :: "real \<Rightarrow> int" where
  "py_int v = (if 0 \<le> v then \<lfloor>v\<rfloor> else \<lceil>v\<rceil>)"

record rect =
  r_x :: int
  r_y :: int
  r_w :: int
  r_h :: int

definition Rect :: "real \<Rightarrow> real \<Rightarrow> real \<Rightarrow> real \<Rightarrow> rect" where
  "Rect a b c d = \<lparr>r_x = py_int a, r_y = py_int b, r_w = py_int c, r_h = py_int d\<rparr>"

definition r_left :: "rect \<Rightarrow> int" where "r_left r = r_x r"
definition r_top :: "rect \<Rightarrow> int" where "r_top r = r_y r"
definition r_right :: "rect \<Rightarrow> int" where "r_right r = r_x r + r_w r"
definition r_bottom :: "rect \<Rightarrow> int" where "r_bottom r = r_y r + r_h r"

text \<open>The library halves with C integer division, which truncates toward zero.\<close>

definition c_half :: "int \<Rightarrow> int" where
  "c_half n = (if 0 \<le> n then n div 2 else - ((- n) div 2))"

definition r_centerx :: "rect \<Rightarrow> int" where "r_centerx r = r_x r + c_half (r_w r)"
definition r_centery :: "rect \<Rightarrow> int" where "r_centery r = r_y r + c_half (r_h r)"

text \<open>
  \<open>Rect.colliderect\<close>: a rectangle of zero width or height collides with nothing;
  otherwise the two (normalised) extents must overlap strictly on both axes.
\<close>

definition colliderect :: "rect \<Rightarrow> rect \<Rightarrow> bool" where
  "colliderect a b =
     (if r_w a = 0 \<or> r_h a = 0 \<or> r_w b = 0 \<or> r_h b = 0 then False
      else min (r_x a) (r_x a + r_w a) < max (r_x b) (r_x b + r_w b)
         \<and> min (r_y a) (r_y a + r_h a) < max (r_y b) (r_y b + r_h b)
         \<and> max (r_x a) (r_x a + r_w a) > min (r_x b) (r_x b + r_w b)
         \<and> max (r_y a) (r_y a + r_h a) > min (r_y b) (r_y b + r_h b))"

text \<open>\<open>Rect.collidepoint\<close>, with the point's coordinates converted like every other argument.\<close>

definition collidepoint :: "rect \<Rightarrow> real \<Rightarrow> real \<Rightarrow> bool" where
  "collidepoint r a b =
     (r_x r \<le> py_int a \<and> py_int a < r_x r + r_w r \<and> r_y r \<le> py_int b \<and> py_int b < r_y r + r_h r)"

text \<open>
  A Python \<open>dict\<close> is an association list in insertion order: \<open>d[k] = v\<close> is
  \<open>AList.update\<close> (in place for a present key, appended otherwise), \<open>del d[k]\<close> is
  \<open>AList.delete\<close>, \<open>k in d\<close> asks whether \<open>map_of\<close> is defined, and
  \<open>d.get(k, default)\<close> is \<open>dict_get\<close>.
\<close>

type_synonym ('k, 'v) dict = "('k \<times> 'v) list"

definition dict_in :: "'k \<Rightarrow> ('k, 'v) dict \<Rightarrow> bool" where
  "dict_in k d = (map_of d k \<noteq> None)"

definition dict_get :: "('k, 'v) dict \<Rightarrow> 'k \<Rightarrow> 'v \<Rightarrow> 'v" where
  "dict_get d k dflt = (case map_of d k of None \<Rightarrow> dflt | Some v \<Rightarrow> v)"


section \<open>constants.py\<close>

definition GRAVITY :: real where "GRAVITY = 1 / 2"
definition PLAYER_SPEED :: real where "PLAYER_SPEED = 5"
definition PLAYER_STARTING_LIVES :: int where "PLAYER_STARTING_LIVES = 3"
definition PLAYER_INVINCIBILITY_AFTER_HIT :: real where "PLAYER_INVINCIBILITY_AFTER_HIT = 2"
definition LEVEL_WIDTH :: int where "LEVEL_WIDTH = 3000"
definition LEVEL_HEIGHT :: int where "LEVEL_HEIGHT = 1000"
definition SCREEN_WIDTH :: int where "SCREEN_WIDTH = 1280"
definition SCREEN_HEIGHT :: int where "SCREEN_HEIGHT = 720"
definition DIMENSION_NORMAL :: int where "DIMENSION_NORMAL = 1"
definition DIMENSION_MIRROR :: int where "DIMENSION_MIRROR = 2"
definition DIMENSION_TIME_SLOW :: int where "DIMENSION_TIME_SLOW = 3"
definition PLAYER_JUMP_STRENGTH :: real where "PLAYER_JUMP_STRENGTH = - 16"
definition MAX_FALL_SPEED :: real where "MAX_FALL_SPEED = 15"


section \<open>game_objects.py\<close>

record platform =
  pf_x :: real
  pf_y :: real
  pf_width :: real
  pf_height :: real
  dimension_visible :: int

definition Platform :: "real \<Rightarrow> real \<Rightarrow> real \<Rightarrow> real \<Rightarrow> platform" where
  "Platform a b c d = \<lparr>pf_x = a, pf_y = b, pf_width = c, pf_height = d, dimension_visible = - 1\<rparr>"

definition platform_get_rect :: "platform \<Rightarrow> rect" where
  "platform_get_rect pf = Rect (pf_x pf) (pf_y pf) (pf_width pf) (pf_height pf)"

record enemy =
  en_x :: real
  en_y :: real
  en_width :: real
  en_height :: real
  en_is_dead :: bool

definition enemy_get_rect :: "enemy \<Rightarrow> rect" where
  "enemy_get_rect e = Rect (en_x e) (en_y e) (en_width e) (en_height e)"

definition die :: "enemy \<Rightarrow> enemy" where
  "die e = e\<lparr>en_is_dead := True\<rparr>"

record collectible =
  co_x :: real
  co_y :: real
  co_width :: real
  co_height :: real
  collected :: bool

definition collectible_get_rect :: "collectible \<Rightarrow> rect" where
  "collectible_get_rect c = Rect (co_x c) (co_y c) (co_width c) (co_height c)"

record portal =
  po_x :: real
  po_y :: real
  po_width :: real
  po_height :: real

definition portal_get_rect :: "portal \<Rightarrow> rect" where
  "portal_get_rect q = Rect (po_x q) (po_y q) (po_width q) (po_height q)"


section \<open>utils.py\<close>

datatype side = Top | Bottom | Left | Right | NoSide

definition check_collision :: "rect \<Rightarrow> rect \<Rightarrow> side" where
  "check_collision rect1 rect2 =
     (if \<not> colliderect rect1 rect2 then NoSide
      else
        let overlap_x = min (r_right rect1) (r_right rect2) - max (r_left rect1) (r_left rect2);
            overlap_y = min (r_bottom rect1) (r_bottom rect2) - max (r_top rect1) (r_top rect2)
        in if overlap_x \<ge> overlap_y
           then (if r_centery rect1 < r_centery rect2 then Bottom else Top)
           else (if r_centerx rect1 < r_centerx rect2 then Right else Left))"


section \<open>player.py\<close>

datatype animation = Idle | Run | Jump | Fall

record player =
  p_x :: real
  p_y :: real
  p_width :: int
  p_height :: int
  velocity_x :: real
  velocity_y :: real
  on_ground :: bool
  is_dead :: bool
  level_completed :: bool
  collected_item :: bool
  jump_count :: int
  max_jumps :: int
  direction :: int
  animation_frame :: int
  frame_timer :: real
  animation_state :: animation
  last_x :: real
  step_distance :: real
  lives :: int
  score :: int
  active_powerups :: "(string, bool) dict"
  powerup_timers :: "(string, real) dict"
  invincible_timer :: real
  cr_top :: rect
  cr_bottom :: rect
  cr_left :: rect
  cr_right :: rect
  last_safe_position :: "real \<times> real"
  last_portal_time :: real

text \<open>\<open>Player.reset\<close>; \<open>now\<close> is the reading of \<open>time.time()\<close>.\<close>

definition reset :: "real \<Rightarrow> real \<Rightarrow> real \<Rightarrow> player" where
  "reset now a b =
     \<lparr>p_x = a, p_y = b, p_width = 40, p_height = 60,
      velocity_x = 0, velocity_y = 0, on_ground = False,
      is_dead = False, level_completed = False, collected_item = False,
      jump_count = 0, max_jumps = 2,
      direction = 1, animation_frame = 0, frame_timer = 0, animation_state = Idle,
      last_x = a, step_distance = 0,
      lives = PLAYER_STARTING_LIVES, score = 0,
      active_powerups = [], powerup_timers = [], invincible_timer = 0,
      cr_top = Rect (a + 5) b (40 - 10) 5,
      cr_bottom = Rect (a + 5) (b + 60 - 5) (40 - 10) 5,
      cr_left = Rect a (b + 5) 5 (60 - 10),
      cr_right = Rect (a + 40 - 5) (b + 5) 5 (60 - 10),
      last_safe_position = (a, b),
      last_portal_time = now\<rparr>"

definition get_powerup_effect :: "player \<Rightarrow> string \<Rightarrow> real \<Rightarrow> real" where
  "get_powerup_effect p powerup_type default_value =
     (if \<not> dict_in powerup_type (active_powerups p) \<or> \<not> dict_get (active_powerups p) powerup_type False
      then default_value
      else if powerup_type = ''speed'' then 3 / 2
      else if powerup_type = ''jump'' then 13 / 10
      else if powerup_type = ''gravity'' then 7 / 10
      else default_value)"

definition move_left :: "player \<Rightarrow> player" where
  "move_left p = p\<lparr>velocity_x := - PLAYER_SPEED * get_powerup_effect p ''speed'' 1,
                   direction := - 1, animation_state := Run\<rparr>"

definition move_right :: "player \<Rightarrow> player" where
  "move_right p = p\<lparr>velocity_x := PLAYER_SPEED * get_powerup_effect p ''speed'' 1,
                    direction := 1, animation_state := Run\<rparr>"

definition stop_horizontal_movement :: "player \<Rightarrow> player" where
  "stop_horizontal_movement p =
     (let p1 = p\<lparr>velocity_x := 0\<rparr>
      in if on_ground p1 then p1\<lparr>animation_state := Idle\<rparr> else p1)"


definition get_rect :: "player \<Rightarrow> rect" where
  "get_rect p = Rect (p_x p) (p_y p) (of_int (p_width p)) (of_int (p_height p))"

definition add_powerup :: "string \<Rightarrow> real \<Rightarrow> player \<Rightarrow> player" where
  "add_powerup powerup_type duration p =
     (let p1 = p\<lparr>active_powerups := AList.update powerup_type True (active_powerups p)\<rparr>;
          p2 = (if dict_in powerup_type (powerup_timers p1)
                then p1\<lparr>powerup_timers :=
                         AList.update powerup_type
                           (dict_get (powerup_timers p1) powerup_type 0 + duration) (powerup_timers p1)\<rparr>
                else p1\<lparr>powerup_timers := AList.update powerup_type duration (powerup_timers p1)\<rparr>)
      in if powerup_type = ''jump'' then p2\<lparr>max_jumps := 3\<rparr> else p2)"


text \<open>\<open>Player.update_powerups\<close>: every timer is reduced, the expired types are collected
  in dictionary order and then removed one by one.\<close>

definition expire_powerup :: "string \<Rightarrow> player \<Rightarrow> player" where
  "expire_powerup powerup_type p =
     (let p1 = p\<lparr>active_powerups := AList.update powerup_type False (active_powerups p),
                 powerup_timers := AList.delete powerup_type (powerup_timers p)\<rparr>
      in if powerup_type = ''jump'' then p1\<lparr>max_jumps := 2\<rparr> else p1)"

definition update_powerups :: "real \<Rightarrow> player \<Rightarrow> player" where
  "update_powerups dt p =
     (let timers = map (\<lambda>(k, v). (k, v - dt)) (powerup_timers p);
          expired_powerups = map fst (filter (\<lambda>(k, v). v \<le> 0) timers);
          p1 = fold expire_powerup expired_powerups (p\<lparr>powerup_timers := timers\<rparr>)
      in if invincible_timer p1 > 0 then p1\<lparr>invincible_timer := invincible_timer p1 - dt\<rparr> else p1)"

definition update_animation :: "real \<Rightarrow> player \<Rightarrow> player" where
  "update_animation dt p =
     (let p1 = p\<lparr>frame_timer := frame_timer p + dt\<rparr>;
          anim_speed = (if animation_state p1 = Run then 7 / 100
                        else if animation_state p1 = Jump \<or> animation_state p1 = Fall then 15 / 100
                        else 1 / 10)
      in if frame_timer p1 \<ge> anim_speed
         then p1\<lparr>animation_frame := (animation_frame p1 + 1) mod 4, frame_timer := 0\<rparr>
         else p1)"

definition update_collision_rects :: "player \<Rightarrow> player" where
  "update_collision_rects p =
     p\<lparr>cr_top := (cr_top p)\<lparr>r_x := py_int (p_x p + 5), r_y := py_int (p_y p)\<rparr>,
       cr_bottom := (cr_bottom p)\<lparr>r_x := py_int (p_x p + 5),
                                  r_y := py_int (p_y p + of_int (p_height p) - 5)\<rparr>,
       cr_left := (cr_left p)\<lparr>r_x := py_int (p_x p), r_y := py_int (p_y p + 5)\<rparr>,
       cr_right := (cr_right p)\<lparr>r_x := py_int (p_x p + of_int (p_width p) - 5),
                                r_y := py_int (p_y p + 5)\<rparr>\<rparr>"

definition is_invincible :: "player \<Rightarrow> bool" where
  "is_invincible p = (invincible_timer p > 0 \<or> dict_get (active_powerups p) ''invincibility'' False)"

text \<open>
  \<open>Player.check_platform_collisions\<close>. \<open>player_rect\<close> and \<open>bottom_rect\<close> are built once,
  before the loop; \<open>platform_step\<close> is the loop body for one platform.
\<close>

definition land_on :: "rect \<Rightarrow> player \<Rightarrow> player" where
  "land_on platform_rect p =
     p\<lparr>p_y := of_int (r_y platform_rect - p_height p), velocity_y := 0,
       on_ground := True, jump_count := 0\<rparr>"

definition platform_step :: "int \<Rightarrow> rect \<Rightarrow> rect \<Rightarrow> platform \<Rightarrow> player \<Rightarrow> player" where
  "platform_step current_dimension player_rect bottom_rect pf p =
     (if \<not> (dimension_visible pf = - 1 \<or> dimension_visible pf = current_dimension) then p
      else
        let platform_rect = platform_get_rect pf
        in if \<not> colliderect player_rect platform_rect then p
           else if colliderect bottom_rect platform_rect \<and> velocity_y p \<ge> 0
             then land_on platform_rect p
           else
             (case check_collision player_rect platform_rect of
                Bottom \<Rightarrow> land_on platform_rect p
              | Top \<Rightarrow> p\<lparr>p_y := of_int (r_y platform_rect + r_h platform_rect), velocity_y := 0\<rparr>
              | Left \<Rightarrow> p\<lparr>p_x := of_int (r_x platform_rect - p_width p + 1), velocity_x := 0\<rparr>
              | Right \<Rightarrow> p\<lparr>p_x := of_int (r_x platform_rect + r_w platform_rect - 1), velocity_x := 0\<rparr>
              | NoSide \<Rightarrow> p))"

definition bottom_probe :: "player \<Rightarrow> rect" where
  "bottom_probe p =
     Rect (p_x p + 2) (p_y p + of_int (p_height p) - 6) (of_int (p_width p - 4)) 10"

definition check_platform_collisions :: "platform list \<Rightarrow> int \<Rightarrow> player \<Rightarrow> player" where
  "check_platform_collisions platforms current_dimension p =
     (let p1 = p\<lparr>on_ground := False\<rparr>;
          player_rect = get_rect p1;
          bottom_rect = bottom_probe p1
      in fold (platform_step current_dimension player_rect bottom_rect) platforms p1)"

text \<open>\<open>Player._check_portal_collision\<close>; \<open>now\<close> is the reading of \<open>time.time()\<close>.\<close>

fun portal_loop :: "real \<Rightarrow> rect \<Rightarrow> portal list \<Rightarrow> player \<Rightarrow> bool \<times> player" where
  "portal_loop current_time player_rect [] p = (False, p)"
| "portal_loop current_time player_rect (q # qs) p =
     (let portal_rect = portal_get_rect q;
          player_center_x = p_x p + of_int (p_width p) / 2;
          player_center_y = p_y p + of_int (p_height p) / 2
      in if collidepoint portal_rect player_center_x player_center_y
            \<or> colliderect player_rect portal_rect
         then (True, p\<lparr>last_portal_time := current_time\<rparr>)
         else portal_loop current_time player_rect qs p)"

definition check_portal_collision :: "real \<Rightarrow> portal list \<Rightarrow> player \<Rightarrow> bool \<times> player" where
  "check_portal_collision now portals p =
     (let player_rect = get_rect p;
          current_time = now
      in if current_time - last_portal_time p < 1 then (False, p)
         else portal_loop current_time player_rect portals p)"

fun collectible_loop :: "rect \<Rightarrow> collectible list \<Rightarrow> bool \<times> collectible list" where
  "collectible_loop player_rect [] = (False, [])"
| "collectible_loop player_rect (c # cs) =
     (let (found, cs') = collectible_loop player_rect cs
      in if \<not> collected c \<and> colliderect player_rect (collectible_get_rect c)
         then (True, c\<lparr>collected := True\<rparr> # cs')
         else (found, c # cs'))"

definition check_collectible_collisions ::
  "collectible list \<Rightarrow> player \<Rightarrow> bool \<times> collectible list" where
  "check_collectible_collisions collectibles p = collectible_loop (get_rect p) collectibles"

datatype enemy_hit = Player_death | Enemy_death

fun enemy_loop ::
  "rect \<Rightarrow> rect \<Rightarrow> enemy list \<Rightarrow> player \<Rightarrow> enemy_hit option \<times> enemy list \<times> player" where
  "enemy_loop player_rect bottom_rect [] p = (None, [], p)"
| "enemy_loop player_rect bottom_rect (e # es) p =
     (if \<not> en_is_dead e \<and> colliderect player_rect (enemy_get_rect e)
           \<and> colliderect bottom_rect (enemy_get_rect e) \<and> velocity_y p > 0
      then (Some Enemy_death, die e # es, p\<lparr>velocity_y := PLAYER_JUMP_STRENGTH * (7 / 10)\<rparr>)
      else if \<not> en_is_dead e \<and> colliderect player_rect (enemy_get_rect e) \<and> \<not> is_invincible p
      then (Some Player_death, e # es, p)
      else (let (res, es', p') = enemy_loop player_rect bottom_rect es p in (res, e # es', p')))"

definition check_enemy_collisions ::
  "enemy list \<Rightarrow> player \<Rightarrow> enemy_hit option \<times> enemy list \<times> player" where
  "check_enemy_collisions enemies p = enemy_loop (get_rect p) (cr_bottom p) enemies p"

text \<open>The event dictionary returned by \<open>Player.update\<close>: a key that was never set reads as false.\<close>

record events =
  ev_step :: bool
  ev_level_complete :: bool
  ev_collect :: bool
  ev_player_death :: bool
  ev_enemy_death :: bool

definition no_events :: events where
  "no_events = \<lparr>ev_step = False, ev_level_complete = False, ev_collect = False,
                ev_player_death = False, ev_enemy_death = False\<rparr>"

text \<open>The blocks of \<open>Player.update\<close>, in source order.\<close>

definition apply_motion :: "real \<Rightarrow> player \<Rightarrow> player" where
  "apply_motion dt p =
     (let p1 = (if on_ground p then p\<lparr>last_safe_position := (p_x p, p_y p)\<rparr> else p);
          gravity_multiplier = get_powerup_effect p1 ''gravity'' 1;
          p2 = p1\<lparr>velocity_y := velocity_y p1 + GRAVITY * gravity_multiplier * dt\<rparr>;
          max_fall_speed = MAX_FALL_SPEED * gravity_multiplier;
          p3 = p2\<lparr>velocity_y := min (velocity_y p2) max_fall_speed\<rparr>;
          p4 = p3\<lparr>p_x := p_x p3 + velocity_x p3 * dt\<rparr>;
          p5 = p4\<lparr>p_y := p_y p4 + velocity_y p4 * dt\<rparr>
      in p5\<lparr>p_x := max 0 (min (p_x p5) (of_int (LEVEL_WIDTH - p_width p5)))\<rparr>)"

definition step_audio :: "events \<Rightarrow> player \<Rightarrow> events \<times> player" where
  "step_audio ev p =
     (let step_threshold = 40;
          (ev1, p1) =
            (if on_ground p \<and> \<bar>p_x p - last_x p\<bar> > 0 then
               let q = p\<lparr>step_distance := step_distance p + \<bar>p_x p - last_x p\<bar>\<rparr>
               in if step_distance q \<ge> step_threshold
                  then (ev\<lparr>ev_step := True\<rparr>, q\<lparr>step_distance := 0\<rparr>)
                  else (ev, q)
             else (ev, p))
      in (ev1, p1\<lparr>last_x := p_x p1\<rparr>))"

definition movement_animation :: "player \<Rightarrow> player" where
  "movement_animation p =
     (if \<not> on_ground p then
        (if velocity_y p < 0 then p\<lparr>animation_state := Jump\<rparr> else p\<lparr>animation_state := Fall\<rparr>)
      else if velocity_x p = 0 then p\<lparr>animation_state := Idle\<rparr>
      else p\<lparr>animation_state := Run\<rparr>)"

definition portal_stage :: "real \<Rightarrow> portal list \<Rightarrow> events \<Rightarrow> player \<Rightarrow> events \<times> player" where
  "portal_stage now portals ev p =
     (let (hit, p1) = check_portal_collision now portals p
      in if hit then (ev\<lparr>ev_level_complete := True\<rparr>, p1\<lparr>level_completed := True\<rparr>)
         else (ev, p1))"

definition collect_stage ::
  "collectible list \<Rightarrow> events \<Rightarrow> player \<Rightarrow> events \<times> player \<times> collectible list" where
  "collect_stage collectibles ev p =
     (let (hit, cs) = check_collectible_collisions collectibles p
      in if hit then (ev\<lparr>ev_collect := True\<rparr>, p\<lparr>collected_item := True\<rparr>, cs)
         else (ev, p, cs))"

definition enemy_stage :: "enemy list \<Rightarrow> events \<Rightarrow> player \<Rightarrow> events \<times> player \<times> enemy list" where
  "enemy_stage enemies ev p =
     (let (enemy_hit, es, p1) = check_enemy_collisions enemies p
      in if enemy_hit = Some Player_death then
           (if \<not> is_invincible p1 \<and> \<not> dict_get (active_powerups p1) ''invincibility'' False then
              let p2 = p1\<lparr>lives := lives p1 - 1\<rparr>;
                  p3 = p2\<lparr>is_dead := (lives p2 \<le> 0)\<rparr>;
                  ev1 = ev\<lparr>ev_player_death := True\<rparr>
              in if \<not> is_dead p3
                 then (ev1, p3\<lparr>invincible_timer := PLAYER_INVINCIBILITY_AFTER_HIT\<rparr>, es)
                 else (ev1, p3, es)
            else (ev, p1, es))
         else if enemy_hit = Some Enemy_death then (ev\<lparr>ev_enemy_death := True\<rparr>, p1, es)
         else (ev, p1, es))"

definition fall_stage :: "events \<Rightarrow> player \<Rightarrow> events \<times> player" where
  "fall_stage ev p =
     (if p_y p > of_int LEVEL_HEIGHT then
        let p1 = p\<lparr>lives := lives p - 1\<rparr>;
            p2 = p1\<lparr>is_dead := (lives p1 \<le> 0)\<rparr>
        in (ev\<lparr>ev_player_death := True\<rparr>, p2)
      else (ev, p))"

text \<open>
  \<open>Player.update\<close>. Besides the event dictionary it gives back what it mutated: the player,
  the collectibles and the enemies. \<open>now\<close> is the reading of \<open>time.time()\<close> taken by the
  portal check (the \<open>time.sleep\<close> after a portal hit changes no state).
\<close>

definition update ::
  "real \<Rightarrow> real \<Rightarrow> platform list \<Rightarrow> portal list \<Rightarrow> collectible list \<Rightarrow> enemy list \<Rightarrow> int \<Rightarrow> player
     \<Rightarrow> events \<times> player \<times> collectible list \<times> enemy list" where
  "update now dt platforms portals collectibles enemies current_dimension p =
     (if is_dead p then (no_events, p, collectibles, enemies)
      else
        let p1 = apply_motion dt p;
            p2 = update_animation dt p1;
            p3 = update_collision_rects p2;
            p4 = check_platform_collisions platforms current_dimension p3;
            (ev1, p5) = step_audio no_events p4;
            p6 = update_powerups dt p5;
            p7 = movement_animation p6;
            (ev2, p8) = portal_stage now portals ev1 p7;
            (ev3, p9, cs) = collect_stage collectibles ev2 p8;
            (ev4, p10, es) = enemy_stage enemies ev3 p9;
            (ev5, p11) = fall_stage ev4 p10
        in (ev5, p11, cs, es))"






section \<open>world.py: the foreground particle pool\<close>

text \<open>One row of the \<open>foreground_particles\<close> array: x, y, size, vx, vy, lifetime, colour index.\<close>

record particle =
  pt_x :: real
  pt_y :: real
  pt_size :: real
  pt_vx :: real
  pt_vy :: real
  pt_life :: real
  pt_color :: real

record world =
  foreground_particles :: "particle list"
  particle_pool_size :: nat
  active_particles :: nat
  camera_x :: real
  camera_y :: real

definition zero_particle :: particle where
  "zero_particle = \<lparr>pt_x = 0, pt_y = 0, pt_size = 0, pt_vx = 0, pt_vy = 0, pt_life = 0, pt_color = 0\<rparr>"

text \<open>The particle part of \<open>World.__init__\<close> and \<open>_init_particles\<close>.\<close>

definition World :: world where
  "World = \<lparr>foreground_particles = replicate 300 zero_particle, particle_pool_size = 300,
            active_particles = 0, camera_x = 0, camera_y = 0\<rparr>"

definition age :: "real \<Rightarrow> particle \<Rightarrow> particle" where
  "age dt pt = pt\<lparr>pt_x := pt_x pt + pt_vx pt * dt, pt_y := pt_y pt + pt_vy pt * dt,
                 pt_life := pt_life pt - dt\<rparr>"

text \<open>
  The array assignment \<open>a[:n] = rows\<close>: the row counts must agree (a single row is
  broadcast), otherwise the library raises \<open>ValueError\<close>, here \<open>None\<close>.
\<close>

definition assign_prefix :: "nat \<Rightarrow> 'a list \<Rightarrow> 'a list \<Rightarrow> 'a list option" where
  "assign_prefix n rows a =
     (if length rows = min n (length a) then Some (rows @ drop n a)
      else if length rows = 1 then Some (replicate (min n (length a)) (hd rows) @ drop n a)
      else None)"

text \<open>
  The block of \<open>World.update\<close> that ages the active particles and compacts the pool
  (``Vordergrundpartikel aktualisieren''). \<open>active_slice\<close> is a view, so the ageing
  writes through to the pool.
\<close>

definition update_foreground_particles :: "real \<Rightarrow> world \<Rightarrow> world option" where
  "update_foreground_particles dt w =
     (if active_particles w > 0 then
        let active_slice = map (age dt) (take (active_particles w) (foreground_particles w));
            w1 = w\<lparr>foreground_particles :=
                     active_slice @ drop (active_particles w) (foreground_particles w)\<rparr>;
            dead_count = length (filter (\<lambda>pt. pt_life pt \<le> 0) active_slice)
        in if dead_count > 0 then
             let w2 = w1\<lparr>active_particles := active_particles w1 - dead_count\<rparr>
             in if active_particles w2 > 0 then
                  (case assign_prefix (active_particles w2)
                          (filter (\<lambda>pt. pt_life pt > 0) active_slice) (foreground_particles w2) of
                     None \<Rightarrow> None
                   | Some a \<Rightarrow> Some (w2\<lparr>foreground_particles := a\<rparr>))
                else Some w2
           else Some w1
      else Some w)"

text \<open>The values \<open>_add_dimension_particle\<close> draws from \<open>random\<close>.\<close>

record draws =
  offset_x :: int
  offset_y :: int
  size_draw :: int
  vx_draw :: real
  vy_draw :: real
  life_draw :: real

text \<open>What a Python call hands back: \<open>None\<close> or a boolean.\<close>

datatype py_result = Py_None | Py_Bool bool

text \<open>
  \<open>World._add_dimension_particle\<close>. Every path ends in a bare \<open>return\<close> or falls off the
  end of the function, so the caller always receives \<open>None\<close>. A write past the end of the
  array would raise \<open>IndexError\<close>, which the \<open>except\<close> clause swallows.
\<close>

definition add_dimension_particle ::
  "draws \<Rightarrow> int \<Rightarrow> real \<Rightarrow> real \<Rightarrow> world \<Rightarrow> py_result \<times> world" where
  "add_dimension_particle rnd dimension player_x player_y w =
     (if active_particles w \<ge> particle_pool_size w then (Py_None, w)
      else
        let dim_index = min (max 1 dimension) 3 - 1;
            pos_x = player_x + of_int (offset_x rnd) - camera_x w;
            pos_y = player_y + of_int (offset_y rnd) - camera_y w;
            particle_data =
              \<lparr>pt_x = max (min pos_x (of_int SCREEN_WIDTH)) 0,
               pt_y = max (min pos_y (of_int SCREEN_HEIGHT)) 0,
               pt_size = max (min (of_int (size_draw rnd)) 10) 1,
               pt_vx = max (min (vx_draw rnd) 5) (- 5),
               pt_vy = max (min (vy_draw rnd) 5) (- 5),
               pt_life = max (min (life_draw rnd) 10) (1 / 10),
               pt_color = of_int (max (min dim_index 2) 0)\<rparr>
        in if active_particles w < length (foreground_particles w)
           then (Py_None, w\<lparr>foreground_particles :=
                              (foreground_particles w)[active_particles w := particle_data],
                            active_particles := active_particles w + 1\<rparr>)
           else (Py_None, w))"


section \<open>game_controller.py: the time handed to the simulation\<close>

record game_controller =
  game_started :: bool
  game_paused :: bool
  menu_active :: bool
  current_dimension :: int
  difficulty :: int
  game_time :: real
  dimension_cooldown :: real





section \<open>Powerup durations add up\<close>

text \<open>
  C6. Collecting powerup type \<open>X\<close> for a duration \<open>t2\<close> while its timer holds
  \<open>t1 > 0\<close> leaves the timer at exactly \<open>t1 + t2\<close>, and the active flag of \<open>X\<close> true.
\<close>

theorem add_powerup_extends_timer:
  assumes "map_of (powerup_timers p) X = Some t1" and "0 < t1"
  shows "map_of (powerup_timers (add_powerup X t2 p)) X = Some (t1 + t2)
       \<and> map_of (active_powerups (add_powerup X t2 p)) X = Some True"
  using assms by (auto simp add: add_powerup_def Let_def dict_in_def dict_get_def update_conv')

theorem add_powerup_extends_timer_witness:
  "map_of (powerup_timers (add_powerup ''speed'' 12 (add_powerup ''speed'' 12 (reset 0 100 300))))
      ''speed'' = Some (12 + 12)
   \<and> map_of (active_powerups (add_powerup ''speed'' 12 (add_powerup ''speed'' 12 (reset 0 100 300))))
      ''speed'' = Some True"
proof -
  have h: "map_of (powerup_timers (add_powerup ''speed'' 12 (reset 0 100 300))) ''speed'' = Some 12"
    by (simp add: add_powerup_def reset_def Let_def dict_in_def)
  show ?thesis
    using add_powerup_extends_timer [OF h, of 12] by simp
qed


section \<open>What each block of the update leaves alone\<close>

lemma py_int_of_int [simp]: "py_int (of_int n) = n"
  by (simp add: py_int_def)

lemma expire_powerup_frame [simp]:
  "last_portal_time (expire_powerup k p) = last_portal_time p"
  "lives (expire_powerup k p) = lives p"
  "is_dead (expire_powerup k p) = is_dead p"
  "jump_count (expire_powerup k p) = jump_count p"
  "on_ground (expire_powerup k p) = on_ground p"
  "p_x (expire_powerup k p) = p_x p"
  "p_y (expire_powerup k p) = p_y p"
  "p_width (expire_powerup k p) = p_width p"
  "invincible_timer (expire_powerup k p) = invincible_timer p"
  by (simp_all add: expire_powerup_def Let_def)

lemma fold_expire_powerup_frame [simp]:
  "last_portal_time (fold expire_powerup ks p) = last_portal_time p"
  "lives (fold expire_powerup ks p) = lives p"
  "is_dead (fold expire_powerup ks p) = is_dead p"
  "jump_count (fold expire_powerup ks p) = jump_count p"
  "on_ground (fold expire_powerup ks p) = on_ground p"
  "p_x (fold expire_powerup ks p) = p_x p"
  "p_y (fold expire_powerup ks p) = p_y p"
  "p_width (fold expire_powerup ks p) = p_width p"
  "invincible_timer (fold expire_powerup ks p) = invincible_timer p"
  by (induction ks arbitrary: p) simp_all

lemma update_powerups_frame [simp]:
  "last_portal_time (update_powerups dt p) = last_portal_time p"
  "lives (update_powerups dt p) = lives p"
  "is_dead (update_powerups dt p) = is_dead p"
  "jump_count (update_powerups dt p) = jump_count p"
  "on_ground (update_powerups dt p) = on_ground p"
  "p_x (update_powerups dt p) = p_x p"
  "p_y (update_powerups dt p) = p_y p"
  "p_width (update_powerups dt p) = p_width p"
  by (simp_all add: update_powerups_def Let_def)

lemma platform_step_frame [simp]:
  "last_portal_time (platform_step d pr br pf p) = last_portal_time p"
  "lives (platform_step d pr br pf p) = lives p"
  "is_dead (platform_step d pr br pf p) = is_dead p"
  "max_jumps (platform_step d pr br pf p) = max_jumps p"
  "active_powerups (platform_step d pr br pf p) = active_powerups p"
  "powerup_timers (platform_step d pr br pf p) = powerup_timers p"
  "p_width (platform_step d pr br pf p) = p_width p"
  "p_height (platform_step d pr br pf p) = p_height p"
  by (simp_all add: platform_step_def Let_def land_on_def split: side.splits)

lemma fold_platform_step_frame [simp]:
  "last_portal_time (fold (platform_step d pr br) pfs p) = last_portal_time p"
  "lives (fold (platform_step d pr br) pfs p) = lives p"
  "is_dead (fold (platform_step d pr br) pfs p) = is_dead p"
  "max_jumps (fold (platform_step d pr br) pfs p) = max_jumps p"
  "active_powerups (fold (platform_step d pr br) pfs p) = active_powerups p"
  "powerup_timers (fold (platform_step d pr br) pfs p) = powerup_timers p"
  "p_width (fold (platform_step d pr br) pfs p) = p_width p"
  "p_height (fold (platform_step d pr br) pfs p) = p_height p"
  by (induction pfs arbitrary: p) simp_all

lemma check_platform_collisions_frame [simp]:
  "last_portal_time (check_platform_collisions pfs d p) = last_portal_time p"
  "lives (check_platform_collisions pfs d p) = lives p"
  "is_dead (check_platform_collisions pfs d p) = is_dead p"
  "max_jumps (check_platform_collisions pfs d p) = max_jumps p"
  "active_powerups (check_platform_collisions pfs d p) = active_powerups p"
  "powerup_timers (check_platform_collisions pfs d p) = powerup_timers p"
  "p_width (check_platform_collisions pfs d p) = p_width p"
  "p_height (check_platform_collisions pfs d p) = p_height p"
  by (simp_all add: check_platform_collisions_def Let_def)

lemma apply_motion_frame [simp]:
  "last_portal_time (apply_motion dt p) = last_portal_time p"
  "lives (apply_motion dt p) = lives p"
  "is_dead (apply_motion dt p) = is_dead p"
  "jump_count (apply_motion dt p) = jump_count p"
  "max_jumps (apply_motion dt p) = max_jumps p"
  "active_powerups (apply_motion dt p) = active_powerups p"
  "powerup_timers (apply_motion dt p) = powerup_timers p"
  "p_width (apply_motion dt p) = p_width p"
  by (simp_all add: apply_motion_def Let_def)

lemma update_animation_frame [simp]:
  "last_portal_time (update_animation dt p) = last_portal_time p"
  "lives (update_animation dt p) = lives p"
  "is_dead (update_animation dt p) = is_dead p"
  "jump_count (update_animation dt p) = jump_count p"
  "max_jumps (update_animation dt p) = max_jumps p"
  "active_powerups (update_animation dt p) = active_powerups p"
  "powerup_timers (update_animation dt p) = powerup_timers p"
  "p_x (update_animation dt p) = p_x p"
  "p_y (update_animation dt p) = p_y p"
  "p_width (update_animation dt p) = p_width p"
  by (simp_all add: update_animation_def Let_def)

lemma update_collision_rects_frame [simp]:
  "last_portal_time (update_collision_rects p) = last_portal_time p"
  "lives (update_collision_rects p) = lives p"
  "is_dead (update_collision_rects p) = is_dead p"
  "jump_count (update_collision_rects p) = jump_count p"
  "max_jumps (update_collision_rects p) = max_jumps p"
  "active_powerups (update_collision_rects p) = active_powerups p"
  "powerup_timers (update_collision_rects p) = powerup_timers p"
  "p_x (update_collision_rects p) = p_x p"
  "p_y (update_collision_rects p) = p_y p"
  "p_width (update_collision_rects p) = p_width p"
  by (simp_all add: update_collision_rects_def)

lemma step_audio_frame [simp]:
  "last_portal_time (snd (step_audio ev p)) = last_portal_time p"
  "lives (snd (step_audio ev p)) = lives p"
  "is_dead (snd (step_audio ev p)) = is_dead p"
  "jump_count (snd (step_audio ev p)) = jump_count p"
  "max_jumps (snd (step_audio ev p)) = max_jumps p"
  "on_ground (snd (step_audio ev p)) = on_ground p"
  "active_powerups (snd (step_audio ev p)) = active_powerups p"
  "powerup_timers (snd (step_audio ev p)) = powerup_timers p"
  "p_x (snd (step_audio ev p)) = p_x p"
  "p_y (snd (step_audio ev p)) = p_y p"
  "p_width (snd (step_audio ev p)) = p_width p"
  "ev_level_complete (fst (step_audio ev p)) = ev_level_complete ev"
  "ev_player_death (fst (step_audio ev p)) = ev_player_death ev"
  by (simp_all add: step_audio_def Let_def split: prod.splits)

lemma movement_animation_frame [simp]:
  "last_portal_time (movement_animation p) = last_portal_time p"
  "lives (movement_animation p) = lives p"
  "is_dead (movement_animation p) = is_dead p"
  "jump_count (movement_animation p) = jump_count p"
  "max_jumps (movement_animation p) = max_jumps p"
  "on_ground (movement_animation p) = on_ground p"
  "active_powerups (movement_animation p) = active_powerups p"
  "invincible_timer (movement_animation p) = invincible_timer p"
  "p_x (movement_animation p) = p_x p"
  "p_y (movement_animation p) = p_y p"
  "p_width (movement_animation p) = p_width p"
  by (simp_all add: movement_animation_def)

text \<open>The portal check either changes nothing or, the cooldown being over, records the hit.\<close>

lemma portal_loop_hit:
  "\<exists>q\<in>set portals.
      collidepoint (portal_get_rect q) (p_x p + of_int (p_width p) / 2) (p_y p + of_int (p_height p) / 2)
      \<or> colliderect pr (portal_get_rect q)
   \<Longrightarrow> portal_loop t pr portals p = (True, p\<lparr>last_portal_time := t\<rparr>)"
  by (induction portals) (auto simp add: Let_def)

lemma portal_loop_cases:
  "portal_loop t pr portals p = (False, p)
   \<or> portal_loop t pr portals p = (True, p\<lparr>last_portal_time := t\<rparr>)"
  by (induction portals) (auto simp add: Let_def)

lemma check_portal_collision_cases:
  "check_portal_collision now portals p = (False, p)
   \<or> (1 \<le> now - last_portal_time p
      \<and> check_portal_collision now portals p = (True, p\<lparr>last_portal_time := now\<rparr>))"
  using portal_loop_cases [of now "get_rect p" portals p]
  by (auto simp add: check_portal_collision_def Let_def)

lemma portal_stage_cases:
  "portal_stage now portals ev p = (ev, p)
   \<or> (1 \<le> now - last_portal_time p
      \<and> portal_stage now portals ev p =
          (ev\<lparr>ev_level_complete := True\<rparr>, p\<lparr>last_portal_time := now, level_completed := True\<rparr>))"
  using check_portal_collision_cases [of now portals p]
  by (auto simp add: portal_stage_def)

lemma portal_stage_frame [simp]:
  "lives (snd (portal_stage now portals ev p)) = lives p"
  "is_dead (snd (portal_stage now portals ev p)) = is_dead p"
  "jump_count (snd (portal_stage now portals ev p)) = jump_count p"
  "max_jumps (snd (portal_stage now portals ev p)) = max_jumps p"
  "on_ground (snd (portal_stage now portals ev p)) = on_ground p"
  "active_powerups (snd (portal_stage now portals ev p)) = active_powerups p"
  "invincible_timer (snd (portal_stage now portals ev p)) = invincible_timer p"
  "p_x (snd (portal_stage now portals ev p)) = p_x p"
  "p_y (snd (portal_stage now portals ev p)) = p_y p"
  "p_width (snd (portal_stage now portals ev p)) = p_width p"
  "ev_player_death (fst (portal_stage now portals ev p)) = ev_player_death ev"
  using portal_stage_cases [of now portals ev p] by auto

lemma collect_stage_frame [simp]:
  "last_portal_time (fst (snd (collect_stage cs ev p))) = last_portal_time p"
  "lives (fst (snd (collect_stage cs ev p))) = lives p"
  "is_dead (fst (snd (collect_stage cs ev p))) = is_dead p"
  "jump_count (fst (snd (collect_stage cs ev p))) = jump_count p"
  "max_jumps (fst (snd (collect_stage cs ev p))) = max_jumps p"
  "on_ground (fst (snd (collect_stage cs ev p))) = on_ground p"
  "active_powerups (fst (snd (collect_stage cs ev p))) = active_powerups p"
  "invincible_timer (fst (snd (collect_stage cs ev p))) = invincible_timer p"
  "p_x (fst (snd (collect_stage cs ev p))) = p_x p"
  "p_y (fst (snd (collect_stage cs ev p))) = p_y p"
  "p_width (fst (snd (collect_stage cs ev p))) = p_width p"
  "ev_level_complete (fst (collect_stage cs ev p)) = ev_level_complete ev"
  "ev_player_death (fst (collect_stage cs ev p)) = ev_player_death ev"
  by (auto simp add: collect_stage_def split: prod.splits)

text \<open>The enemy check touches nothing of the player but the vertical velocity.\<close>

lemma enemy_loop_player:
  "snd (snd (enemy_loop pr br es p)) =
     p\<lparr>velocity_y := velocity_y (snd (snd (enemy_loop pr br es p)))\<rparr>"
  by (induction es) (auto simp add: split_beta)

lemma check_enemy_collisions_player:
  "\<exists>v. snd (snd (check_enemy_collisions es p)) = p\<lparr>velocity_y := v\<rparr>"
  unfolding check_enemy_collisions_def using enemy_loop_player by blast

lemma enemy_stage_frame [simp]:
  "last_portal_time (fst (snd (enemy_stage es ev p))) = last_portal_time p"
  "jump_count (fst (snd (enemy_stage es ev p))) = jump_count p"
  "max_jumps (fst (snd (enemy_stage es ev p))) = max_jumps p"
  "on_ground (fst (snd (enemy_stage es ev p))) = on_ground p"
  "active_powerups (fst (snd (enemy_stage es ev p))) = active_powerups p"
  "p_x (fst (snd (enemy_stage es ev p))) = p_x p"
  "p_y (fst (snd (enemy_stage es ev p))) = p_y p"
  "p_width (fst (snd (enemy_stage es ev p))) = p_width p"
  "ev_level_complete (fst (enemy_stage es ev p)) = ev_level_complete ev"
  using check_enemy_collisions_player [of es p]
  by (auto simp add: enemy_stage_def Let_def split: prod.splits)

lemma fall_stage_frame [simp]:
  "last_portal_time (snd (fall_stage ev p)) = last_portal_time p"
  "jump_count (snd (fall_stage ev p)) = jump_count p"
  "max_jumps (snd (fall_stage ev p)) = max_jumps p"
  "on_ground (snd (fall_stage ev p)) = on_ground p"
  "active_powerups (snd (fall_stage ev p)) = active_powerups p"
  "invincible_timer (snd (fall_stage ev p)) = invincible_timer p"
  "p_x (snd (fall_stage ev p)) = p_x p"
  "p_y (snd (fall_stage ev p)) = p_y p"
  "p_width (snd (fall_stage ev p)) = p_width p"
  "ev_level_complete (fst (fall_stage ev p)) = ev_level_complete ev"
  by (simp_all add: fall_stage_def Let_def)

text \<open>The update of a live player, block by block.\<close>

lemma update_unfold:
  "\<not> is_dead p \<Longrightarrow> update now dt platforms portals collectibles enemies d p =
     (let a = step_audio no_events (check_platform_collisions platforms d
                (update_collision_rects (update_animation dt (apply_motion dt p))));
          b = portal_stage now portals (fst a) (movement_animation (update_powerups dt (snd a)));
          c = collect_stage collectibles (fst b) (snd b);
          e = enemy_stage enemies (fst c) (fst (snd c));
          f = fall_stage (fst e) (fst (snd e))
      in (fst f, snd f, snd (snd c), snd (snd e)))"
  by (simp add: update_def Let_def split_beta)


section \<open>The portal cooldown\<close>

text \<open>
  C9. A portal check less than one second after the last portal trigger (the time stored in
  \<open>last_portal_time\<close>, which \<open>reset\<close> sets to the time of the reset) reports no hit and
  changes nothing; a check at least one second after it, with the player's centre inside a
  portal or the player's rectangle overlapping one, reports a hit and stores the time of the
  check. In a whole update of a live player the level-complete event therefore needs a full
  second since the last trigger, and \<open>last_portal_time\<close> moves exactly when the event fires.
\<close>

theorem portal_cooldown:
  "(now - last_portal_time p < 1 \<longrightarrow> check_portal_collision now portals p = (False, p))
   \<and> (1 \<le> now - last_portal_time p
        \<and> (\<exists>q\<in>set portals.
              collidepoint (portal_get_rect q)
                 (p_x p + of_int (p_width p) / 2) (p_y p + of_int (p_height p) / 2)
              \<or> colliderect (get_rect p) (portal_get_rect q))
      \<longrightarrow> check_portal_collision now portals p = (True, p\<lparr>last_portal_time := now\<rparr>))
   \<and> (\<not> is_dead p \<longrightarrow>
        (ev_level_complete (fst (update now dt platforms portals collectibles enemies d p))
           \<longrightarrow> 1 \<le> now - last_portal_time p)
        \<and> last_portal_time (fst (snd (update now dt platforms portals collectibles enemies d p)))
            = (if ev_level_complete (fst (update now dt platforms portals collectibles enemies d p))
               then now else last_portal_time p))
   \<and> last_portal_time (reset now a b) = now"
proof -
  have c1: "now - last_portal_time p < 1 \<longrightarrow> check_portal_collision now portals p = (False, p)"
    by (simp add: check_portal_collision_def Let_def)
  have c2: "1 \<le> now - last_portal_time p
        \<and> (\<exists>q\<in>set portals.
              collidepoint (portal_get_rect q)
                 (p_x p + of_int (p_width p) / 2) (p_y p + of_int (p_height p) / 2)
              \<or> colliderect (get_rect p) (portal_get_rect q))
      \<longrightarrow> check_portal_collision now portals p = (True, p\<lparr>last_portal_time := now\<rparr>)"
    using portal_loop_hit [of portals p "get_rect p" now]
    by (auto simp add: check_portal_collision_def Let_def)
  have c3: "(ev_level_complete (fst (update now dt platforms portals collectibles enemies d p))
           \<longrightarrow> 1 \<le> now - last_portal_time p)
        \<and> last_portal_time (fst (snd (update now dt platforms portals collectibles enemies d p)))
            = (if ev_level_complete (fst (update now dt platforms portals collectibles enemies d p))
               then now else last_portal_time p)" if live: "\<not> is_dead p"
  proof -
    define a where "a = step_audio no_events (check_platform_collisions platforms d
                  (update_collision_rects (update_animation dt (apply_motion dt p))))"
    define q where "q = movement_animation (update_powerups dt (snd a))"
    have lq: "last_portal_time q = last_portal_time p" by (simp add: q_def a_def)
    have ea: "ev_level_complete (fst a) = False" by (simp add: a_def no_events_def)
    from portal_stage_cases [of now portals "fst a" q] lq ea
    show ?thesis
      unfolding update_unfold [OF live] Let_def a_def [symmetric] q_def [symmetric]
      by auto
  qed
  have c4: "last_portal_time (reset now a b) = now" by (simp add: reset_def)
  from c1 c2 c3 c4 show ?thesis by blast
qed

theorem portal_cooldown_witness:
  "check_portal_collision (1 / 2) [\<lparr>po_x = 100, po_y = 300, po_width = 40, po_height = 60\<rparr>] (reset 0 100 300)
     = (False, reset 0 100 300)
   \<and> check_portal_collision (12 / 10) [\<lparr>po_x = 100, po_y = 300, po_width = 40, po_height = 60\<rparr>] (reset 0 100 300)
     = (True, (reset 0 100 300)\<lparr>last_portal_time := 12 / 10\<rparr>)
   \<and> ev_level_complete (fst (update (12 / 10) 1 [] [\<lparr>po_x = 100, po_y = 300, po_width = 40, po_height = 60\<rparr>] [] [] 1 (reset 0 100 300)))
   \<and> 1 \<le> 12 / 10 - last_portal_time (reset 0 100 300)
   \<and> last_portal_time (fst (snd (update (12 / 10) 1 [] [\<lparr>po_x = 100, po_y = 300, po_width = 40, po_height = 60\<rparr>] [] [] 1 (reset 0 100 300))))
      = 12 / 10"
proof -
  let ?q = "\<lparr>po_x = 100, po_y = 300, po_width = 40, po_height = 60\<rparr>"
  let ?p = "reset 0 100 300"
  have h1: "1 / 2 - last_portal_time ?p < 1" by (simp add: reset_def)
  have h2: "1 \<le> 12 / 10 - last_portal_time ?p" by (simp add: reset_def)
  have h3: "\<exists>q\<in>set [?q].
              collidepoint (portal_get_rect q)
                 (p_x ?p + of_int (p_width ?p) / 2) (p_y ?p + of_int (p_height ?p) / 2)
              \<or> colliderect (get_rect ?p) (portal_get_rect q)"
    by code_simp
  have h4: "\<not> is_dead ?p" by (simp add: reset_def)
  have h5: "ev_level_complete (fst (update (12 / 10) 1 [] [?q] [] [] 1 ?p))" by code_simp
  from portal_cooldown [of "1 / 2" ?p "[?q]"] h1
  have a: "check_portal_collision (1 / 2) [?q] ?p = (False, ?p)" by blast
  from portal_cooldown [of "12 / 10" ?p "[?q]" 1 "[]" "[]" "[]" 1] h2 h3 h4 h5
  have b: "check_portal_collision (12 / 10) [?q] ?p = (True, ?p\<lparr>last_portal_time := 12 / 10\<rparr>)"
    and c: "last_portal_time (fst (snd (update (12 / 10) 1 [] [?q] [] [] 1 ?p))) = 12 / 10"
    by (blast, presburger)
  from a b c h2 h5 show ?thesis by blast
qed


section \<open>The horizontal world bounds\<close>

lemma platform_step_x:
  "p_x (platform_step d pr br pf p) = p_x p
   \<or> ((dimension_visible pf = - 1 \<or> dimension_visible pf = d)
      \<and> (p_x (platform_step d pr br pf p) = of_int (r_x (platform_get_rect pf) - p_width p + 1)
         \<or> p_x (platform_step d pr br pf p)
            = of_int (r_x (platform_get_rect pf) + r_w (platform_get_rect pf) - 1)))"
  by (simp add: platform_step_def Let_def land_on_def split: side.splits)

lemma fold_platform_step_x:
  "p_x (fold (platform_step d pr br) pfs p) = p_x p
   \<or> (\<exists>pf\<in>set pfs. (dimension_visible pf = - 1 \<or> dimension_visible pf = d)
      \<and> (p_x (fold (platform_step d pr br) pfs p) = of_int (r_x (platform_get_rect pf) - p_width p + 1)
         \<or> p_x (fold (platform_step d pr br) pfs p)
            = of_int (r_x (platform_get_rect pf) + r_w (platform_get_rect pf) - 1)))"
proof (induction pfs arbitrary: p)
  case Nil
  show ?case by simp
next
  case (Cons pf pfs)
  from Cons.IH [of "platform_step d pr br pf p"] platform_step_x [of d pr br pf p]
  show ?case by (simp; metis)
qed

lemma apply_motion_x:
  "p_width p \<le> LEVEL_WIDTH \<Longrightarrow>
   0 \<le> p_x (apply_motion dt p) \<and> p_x (apply_motion dt p) \<le> of_int (LEVEL_WIDTH - p_width p)"
  by (simp add: apply_motion_def Let_def)

text \<open>
  C10 (amended). The clamp to \<open>[0, LEVEL_WIDTH - width]\<close> is applied right after the
  position is integrated, before the platform collisions are resolved. After a whole update
  of a live player the horizontal position is therefore inside the bounds, or it is the
  position a horizontal collision with a visible platform put it at: one unit inside the
  platform's left edge (\<open>platform.x - width + 1\<close>) or right edge
  (\<open>platform.x + platform.width - 1\<close>).
\<close>

theorem update_x_clamped_or_platform_edge:
  assumes "\<not> is_dead p" and "p_width p \<le> LEVEL_WIDTH"
  shows "(0 \<le> p_x (apply_motion dt p) \<and> p_x (apply_motion dt p) \<le> of_int (LEVEL_WIDTH - p_width p))
       \<and> ((0 \<le> p_x (fst (snd (update now dt platforms portals collectibles enemies d p)))
            \<and> p_x (fst (snd (update now dt platforms portals collectibles enemies d p)))
                 \<le> of_int (LEVEL_WIDTH - p_width p))
          \<or> (\<exists>pf\<in>set platforms. (dimension_visible pf = - 1 \<or> dimension_visible pf = d)
               \<and> (p_x (fst (snd (update now dt platforms portals collectibles enemies d p)))
                     = of_int (r_x (platform_get_rect pf) - p_width p + 1)
                  \<or> p_x (fst (snd (update now dt platforms portals collectibles enemies d p)))
                     = of_int (r_x (platform_get_rect pf) + r_w (platform_get_rect pf) - 1))))"
proof -
  define p3 where "p3 = update_collision_rects (update_animation dt (apply_motion dt p))"
  have x3: "p_x p3 = p_x (apply_motion dt p)" and w3: "p_width p3 = p_width p"
    by (simp_all add: p3_def)
  have fin: "p_x (fst (snd (update now dt platforms portals collectibles enemies d p)))
             = p_x (check_platform_collisions platforms d p3)"
    unfolding update_unfold [OF assms(1)] Let_def p3_def by simp
  have cp: "p_x (check_platform_collisions platforms d p3)
            = p_x (fold (platform_step d (get_rect (p3\<lparr>on_ground := False\<rparr>))
                     (bottom_probe (p3\<lparr>on_ground := False\<rparr>))) platforms (p3\<lparr>on_ground := False\<rparr>))"
    by (simp add: check_platform_collisions_def Let_def)
  from fold_platform_step_x [of d "get_rect (p3\<lparr>on_ground := False\<rparr>)"
         "bottom_probe (p3\<lparr>on_ground := False\<rparr>)" platforms "p3\<lparr>on_ground := False\<rparr>"]
       apply_motion_x [OF assms(2), of dt]
  show ?thesis unfolding fin cp using x3 w3 by auto
qed

theorem update_x_clamped_or_platform_edge_witness:
  "(0 \<le> p_x (apply_motion 1 (reset 0 100 100))
      \<and> p_x (apply_motion 1 (reset 0 100 100)) \<le> of_int (LEVEL_WIDTH - p_width (reset 0 100 100)))
   \<and> p_x (fst (snd (update 0 1 [Platform 300 550 200 20] [] [] [] 1 (reset 0 100 100)))) = 100"
proof -
  have h1: "\<not> is_dead (reset 0 100 100)" by (simp add: reset_def)
  have h2: "p_width (reset 0 100 100) \<le> LEVEL_WIDTH" by (simp add: reset_def LEVEL_WIDTH_def)
  have h3: "p_x (fst (snd (update 0 1 [Platform 300 550 200 20] [] [] [] 1 (reset 0 100 100)))) = 100"
    by code_simp
  from update_x_clamped_or_platform_edge [OF h1 h2, of 1 0 "[Platform 300 550 200 20]" "[]" "[]" "[]" 1] h3
  show ?thesis by blast
qed

text \<open>
  The claim as stated fails: a live player standing beside a platform that lies inside the
  level ends one update at a negative horizontal position.
\<close>

theorem update_x_leaves_bounds:
  "\<not> is_dead (reset 0 100 100)
   \<and> p_x (fst (snd (update 0 1 [Platform 20 50 100 100] [] [] [] 1 (reset 0 100 100)))) = - 19"
  by code_simp


section \<open>Losing a life\<close>







section \<open>The jump counter\<close>










lemma add_powerup_jump_count [simp]: "jump_count (add_powerup k t p) = jump_count p"
  by (simp add: add_powerup_def Let_def)







section \<open>Resolving platform collisions\<close>

text \<open>
  C2. The claim asks that a horizontal collision leaves the actor at the platform edge on
  the actor's own side. The code does the opposite. Here the player stands to the left of the
  platform (its centre is left of the platform's centre), overlaps it by 10 units
  horizontally and 50 vertically, and the ground probe does not reach the platform.
  \<open>check_collision\<close> answers \<open>Right\<close>, and the handler of that answer puts the player's
  left edge one unit inside the platform's right edge, at 229: the player has passed through
  the platform.
\<close>

theorem horizontal_collision_pushes_through:
  "colliderect (get_rect (reset 0 100 100)) (platform_get_rect (Platform 130 50 100 100))
   \<and> \<not> colliderect (bottom_probe (reset 0 100 100)) (platform_get_rect (Platform 130 50 100 100))
   \<and> check_collision (get_rect (reset 0 100 100)) (platform_get_rect (Platform 130 50 100 100)) = Right
   \<and> r_centerx (get_rect (reset 0 100 100)) < r_centerx (platform_get_rect (Platform 130 50 100 100))
   \<and> r_right (platform_get_rect (Platform 130 50 100 100)) = 230
   \<and> p_x (check_platform_collisions [Platform 130 50 100 100] 1 (reset 0 100 100)) = 229"
  by code_simp

lemma platform_step_velocity_y:
  "0 \<le> velocity_y p \<Longrightarrow> 0 \<le> velocity_y (platform_step d pr br pf p)"
  by (simp add: platform_step_def Let_def land_on_def split: side.splits)

lemma fold_platform_step_velocity_y:
  "0 \<le> velocity_y p \<Longrightarrow> 0 \<le> velocity_y (fold (platform_step d pr br) pfs p)"
  by (induction pfs arbitrary: p) (simp_all add: platform_step_velocity_y)

lemma fold_platform_step_skip:
  "\<forall>Q\<in>set pfs. \<not> ((dimension_visible Q = - 1 \<or> dimension_visible Q = d)
                      \<and> colliderect pr (platform_get_rect Q))
   \<Longrightarrow> fold (platform_step d pr br) pfs p = p"
  by (induction pfs arbitrary: p) (auto simp add: platform_step_def Let_def)

lemma py_int_of_int_diff [simp]: "py_int (real_of_int a - real_of_int b) = a - b"
  using py_int_of_int [of "a - b"] by simp

lemma land_on_separates:
  assumes "0 \<le> p_height q" and "0 \<le> r_h R"
  shows "\<not> colliderect (get_rect (land_on R q)) R"
  using assms by (simp add: colliderect_def get_rect_def Rect_def land_on_def)

lemma py_int_nonneg: "0 \<le> v \<Longrightarrow> 0 \<le> py_int v"
  by (simp add: py_int_def)

text \<open>
  C3 (amended). When the last platform in registry order that is visible and overlaps the
  player's rectangle at entry is also reached by the ground probe, and the vertical velocity
  at entry is not negative, the resolution ends with the player standing on that platform:
  the rectangles do not overlap, the player's bottom is the platform's top, the vertical
  velocity is zero, the on-ground flag is set and the jump counter is 0.
\<close>

theorem landing_on_last_platform_separates:
  assumes split: "platforms = pre @ P # post"
    and vis: "dimension_visible P = - 1 \<or> dimension_visible P = d"
    and hit: "colliderect (get_rect p) (platform_get_rect P)"
    and probe: "colliderect (bottom_probe p) (platform_get_rect P)"
    and vy: "0 \<le> velocity_y p"
    and rest: "\<forall>Q\<in>set post. \<not> ((dimension_visible Q = - 1 \<or> dimension_visible Q = d)
                      \<and> colliderect (get_rect p) (platform_get_rect Q))"
    and ph: "0 \<le> p_height p" and pfh: "0 \<le> pf_height P"
  shows "\<not> colliderect (get_rect (check_platform_collisions platforms d p)) (platform_get_rect P)
       \<and> on_ground (check_platform_collisions platforms d p)
       \<and> velocity_y (check_platform_collisions platforms d p) = 0
       \<and> jump_count (check_platform_collisions platforms d p) = 0
       \<and> p_y (check_platform_collisions platforms d p)
            = of_int (r_y (platform_get_rect P) - p_height p)"
proof -
  define p1 where "p1 = p\<lparr>on_ground := False\<rparr>"
  define pr where "pr = get_rect p1"
  define br where "br = bottom_probe p1"
  define R where "R = platform_get_rect P"
  have pr_eq: "pr = get_rect p" and br_eq: "br = bottom_probe p"
    by (simp_all add: pr_def br_def p1_def get_rect_def bottom_probe_def)
  define q where "q = fold (platform_step d pr br) pre p1"
  have qv: "0 \<le> velocity_y q"
    unfolding q_def by (rule fold_platform_step_velocity_y) (simp add: p1_def vy)
  have qh: "p_height q = p_height p" by (simp add: q_def p1_def)
  have stepP: "platform_step d pr br P q = land_on R q"
    using vis hit probe qv by (simp add: platform_step_def Let_def pr_eq br_eq R_def)
  have "check_platform_collisions platforms d p
        = fold (platform_step d pr br) post (platform_step d pr br P q)"
    by (simp add: check_platform_collisions_def Let_def split p1_def pr_def br_def q_def)
  also have "\<dots> = platform_step d pr br P q"
    by (rule fold_platform_step_skip) (use rest pr_eq in simp)
  finally have fin: "check_platform_collisions platforms d p = land_on R q"
    using stepP by simp
  have Rh: "0 \<le> r_h R"
    using pfh by (simp add: R_def platform_get_rect_def Rect_def py_int_nonneg)
  have sep: "\<not> colliderect (get_rect (land_on R q)) R"
    by (rule land_on_separates) (use ph qh Rh in simp_all)
  show ?thesis
    unfolding fin using sep qh by (simp add: land_on_def R_def)
qed

theorem landing_on_last_platform_separates_witness:
  "\<not> colliderect
        (get_rect (check_platform_collisions [Platform 0 350 1280 50, Platform 300 550 200 20] 1
                     (reset 0 100 295)))
        (platform_get_rect (Platform 0 350 1280 50))
   \<and> on_ground (check_platform_collisions [Platform 0 350 1280 50, Platform 300 550 200 20] 1
                     (reset 0 100 295))
   \<and> p_y (check_platform_collisions [Platform 0 350 1280 50, Platform 300 550 200 20] 1
                     (reset 0 100 295)) = 290"
proof -
  let ?P = "Platform 0 350 1280 50"
  let ?Q = "Platform 300 550 200 20"
  let ?p = "reset 0 100 295"
  have h1: "[?P, ?Q] = [] @ ?P # [?Q]" by simp
  have h2: "dimension_visible ?P = - 1 \<or> dimension_visible ?P = 1" by (simp add: Platform_def)
  have h3: "colliderect (get_rect ?p) (platform_get_rect ?P)" by code_simp
  have h4: "colliderect (bottom_probe ?p) (platform_get_rect ?P)" by code_simp
  have h5: "0 \<le> velocity_y ?p" by (simp add: reset_def)
  have h6': "\<not> colliderect (get_rect ?p) (platform_get_rect ?Q)" by code_simp
  have h6: "\<forall>Q\<in>set [?Q]. \<not> ((dimension_visible Q = - 1 \<or> dimension_visible Q = 1)
                      \<and> colliderect (get_rect ?p) (platform_get_rect Q))"
    using h6' by simp
  have h7: "0 \<le> p_height ?p" by (simp add: reset_def)
  have h8: "0 \<le> pf_height ?P" by (simp add: Platform_def)
  have h9: "real_of_int (r_y (platform_get_rect ?P) - p_height ?p) = 290" by code_simp
  from landing_on_last_platform_separates [OF h1 h2 h3 h4 h5 h6 h7 h8] h9
  show ?thesis by presburger
qed

text \<open>
  The claim as stated fails with two platforms of the time-warp level. The player overlaps
  both; the first is resolved as a head bump, the second, met by the ground probe, as a
  landing computed from the rectangle taken before the loop. The landing puts the player back
  into the first platform.
\<close>

theorem resolution_leaves_overlap:
  "0 \<le> velocity_y (reset 0 800 395)
   \<and> dimension_visible (Platform 790 410 180 20) = - 1
   \<and> colliderect
        (get_rect (check_platform_collisions [Platform 790 410 180 20, Platform 750 450 150 20] 1
                     (reset 0 800 395)))
        (platform_get_rect (Platform 790 410 180 20))"
  by code_simp


section \<open>Ageing and compacting the particle pool\<close>

lemma filter_live_dead:
  "length (filter (\<lambda>pt. 0 < pt_life pt) xs) + length (filter (\<lambda>pt. pt_life pt \<le> 0) xs) = length xs"
  using sum_length_filter_compl [of "\<lambda>pt. 0 < pt_life pt" xs] by (simp add: not_less)

lemma no_dead_all_live:
  "length (filter (\<lambda>pt. pt_life pt \<le> 0) xs) = 0 \<Longrightarrow> filter (\<lambda>pt. 0 < pt_life pt) xs = xs"
  by (induction xs) (auto split: if_splits)

text \<open>The compaction on plain lists: what the pool and the count become.\<close>

lemma update_foreground_particles_eq:
  assumes "n = active_particles w" and "sl = map (age dt) (take n (foreground_particles w))"
    and "L = filter (\<lambda>pt. 0 < pt_life pt) sl" and "D = filter (\<lambda>pt. pt_life pt \<le> 0) sl"
    and "rest = drop n (foreground_particles w)"
  shows "update_foreground_particles dt w =
      (if 0 < n then
         (if 0 < length D then
            (if 0 < n - length D then
               map_option (\<lambda>a. w\<lparr>foreground_particles := a, active_particles := n - length D\<rparr>)
                 (assign_prefix (n - length D) L (sl @ rest))
             else Some (w\<lparr>foreground_particles := sl @ rest, active_particles := n - length D\<rparr>))
          else Some (w\<lparr>foreground_particles := sl @ rest\<rparr>))
       else Some w)"
  unfolding update_foreground_particles_def Let_def assms(1) [symmetric]
  apply (simp only: assms(2-5) [symmetric])
  apply (simp add: assms(1) [symmetric] split: option.splits)
  done

text \<open>
  C8. With the active count within the pool, the ageing and compaction step returns (no
  error); afterwards the active prefix of the pool is exactly the aged particles whose
  lifetime is still positive, in the order they had before, the active count is their number,
  no particle with lifetime \<open>\<le> 0\<close> is left in the prefix, and the count stays within the
  capacity. The pool keeps its length.
\<close>

theorem compaction_keeps_survivors_in_order:
  assumes act: "active_particles w \<le> length (foreground_particles w)"
    and cap: "length (foreground_particles w) = particle_pool_size w"
  shows "\<exists>w'. update_foreground_particles dt w = Some w'
          \<and> take (active_particles w') (foreground_particles w')
              = filter (\<lambda>pt. 0 < pt_life pt)
                  (map (age dt) (take (active_particles w) (foreground_particles w)))
          \<and> active_particles w'
              = length (filter (\<lambda>pt. 0 < pt_life pt)
                  (map (age dt) (take (active_particles w) (foreground_particles w))))
          \<and> (\<forall>pt\<in>set (take (active_particles w') (foreground_particles w')). 0 < pt_life pt)
          \<and> active_particles w' \<le> active_particles w
          \<and> active_particles w' \<le> particle_pool_size w'
          \<and> particle_pool_size w' = particle_pool_size w
          \<and> length (foreground_particles w') = length (foreground_particles w)"
proof -
  define n where "n = active_particles w"
  define sl where "sl = map (age dt) (take n (foreground_particles w))"
  define L where "L = filter (\<lambda>pt. 0 < pt_life pt) sl"
  define D where "D = filter (\<lambda>pt. pt_life pt \<le> 0) sl"
  define rest where "rest = drop n (foreground_particles w)"
  note unf = update_foreground_particles_eq [OF n_def sl_def L_def D_def rest_def]
  have nle: "n \<le> length (foreground_particles w)" using act by (simp add: n_def)
  have lsl: "length sl = n" using nle by (simp add: sl_def)
  have lrest: "length rest = length (foreground_particles w) - n" by (simp add: rest_def)
  have LD: "length L + length D = n"
    unfolding L_def D_def lsl [symmetric] by (rule filter_live_dead)
  have Llive: "\<forall>pt\<in>set L. 0 < pt_life pt" by (simp add: L_def)
  have goal: "\<exists>w'. update_foreground_particles dt w = Some w'
          \<and> take (active_particles w') (foreground_particles w') = L
          \<and> active_particles w' = length L
          \<and> particle_pool_size w' = particle_pool_size w
          \<and> length (foreground_particles w') = length (foreground_particles w)"
  proof (cases "n = 0")
    case True
    then have "L = []" using LD by simp
    then show ?thesis using True unf by (simp add: n_def)
  next
    case npos: False
    show ?thesis
    proof (cases "length D = 0")
      case True
      then have "L = sl" unfolding L_def D_def by (rule no_dead_all_live)
      moreover have "update_foreground_particles dt w = Some (w\<lparr>foreground_particles := sl @ rest\<rparr>)"
        using unf npos True by simp
      ultimately show ?thesis using lsl nle lrest by (simp add: n_def)
    next
      case dpos: False
      have n': "n - length D = length L" using LD by simp
      show ?thesis
      proof (cases "length L = 0")
        case True
        have "update_foreground_particles dt w
              = Some (w\<lparr>foreground_particles := sl @ rest, active_particles := length L\<rparr>)"
          using unf npos dpos n' True by simp
        then show ?thesis using True lsl nle lrest by simp
      next
        case False
        have lenL: "length L \<le> n" using LD by simp
        have ap: "assign_prefix (length L) L (sl @ rest) = Some (L @ drop (length L) (sl @ rest))"
          using lenL lsl nle lrest by (simp add: assign_prefix_def min_def)
        have "update_foreground_particles dt w
              = Some (w\<lparr>foreground_particles := L @ drop (length L) (sl @ rest),
                        active_particles := length L\<rparr>)"
          using unf npos dpos n' False ap by simp
        then show ?thesis using lenL lsl nle lrest by simp
      qed
    qed
  qed
  then obtain w' where w': "update_foreground_particles dt w = Some w'"
      "take (active_particles w') (foreground_particles w') = L"
      "active_particles w' = length L"
      "particle_pool_size w' = particle_pool_size w"
      "length (foreground_particles w') = length (foreground_particles w)" by blast
  have lenL: "length L \<le> n" using LD by simp
  have Leq: "L = filter (\<lambda>pt. 0 < pt_life pt)
                  (map (age dt) (take (active_particles w) (foreground_particles w)))"
    by (simp only: L_def sl_def n_def)
  show ?thesis
  proof (intro exI conjI)
    show "update_foreground_particles dt w = Some w'" by (rule w'(1))
    show "take (active_particles w') (foreground_particles w')
              = filter (\<lambda>pt. 0 < pt_life pt)
                  (map (age dt) (take (active_particles w) (foreground_particles w)))"
      using w'(2) Leq by (rule trans)
    show "active_particles w'
              = length (filter (\<lambda>pt. 0 < pt_life pt)
                  (map (age dt) (take (active_particles w) (foreground_particles w))))"
      using w'(3) Leq by (simp only:)
    show "\<forall>pt\<in>set (take (active_particles w') (foreground_particles w')). 0 < pt_life pt"
      using w'(2) Llive by (simp only:)
    show "active_particles w' \<le> active_particles w" using w'(3) lenL by (simp only: n_def)
    show "active_particles w' \<le> particle_pool_size w'"
      using w'(3,4) lenL nle cap by linarith
    show "particle_pool_size w' = particle_pool_size w" by (rule w'(4))
    show "length (foreground_particles w') = length (foreground_particles w)" by (rule w'(5))
  qed
qed

theorem compaction_keeps_survivors_in_order_witness:
  "\<exists>w'. update_foreground_particles 1
           \<lparr>foreground_particles =
              [\<lparr>pt_x = 0, pt_y = 0, pt_size = 2, pt_vx = 1, pt_vy = 1, pt_life = 3, pt_color = 0\<rparr>,
               \<lparr>pt_x = 5, pt_y = 5, pt_size = 2, pt_vx = 0, pt_vy = 0, pt_life = 1, pt_color = 0\<rparr>,
               \<lparr>pt_x = 9, pt_y = 9, pt_size = 2, pt_vx = 0, pt_vy = 1, pt_life = 2, pt_color = 0\<rparr>],
            particle_pool_size = 3, active_particles = 3, camera_x = 0, camera_y = 0\<rparr> = Some w'
        \<and> take (active_particles w') (foreground_particles w')
            = [\<lparr>pt_x = 1, pt_y = 1, pt_size = 2, pt_vx = 1, pt_vy = 1, pt_life = 2, pt_color = 0\<rparr>,
               \<lparr>pt_x = 9, pt_y = 10, pt_size = 2, pt_vx = 0, pt_vy = 1, pt_life = 1, pt_color = 0\<rparr>]
        \<and> active_particles w' = 2"
proof -
  let ?w = "\<lparr>foreground_particles =
              [\<lparr>pt_x = 0, pt_y = 0, pt_size = 2, pt_vx = 1, pt_vy = 1, pt_life = 3, pt_color = 0\<rparr>,
               \<lparr>pt_x = 5, pt_y = 5, pt_size = 2, pt_vx = 0, pt_vy = 0, pt_life = 1, pt_color = 0\<rparr>,
               \<lparr>pt_x = 9, pt_y = 9, pt_size = 2, pt_vx = 0, pt_vy = 1, pt_life = 2, pt_color = 0\<rparr>],
            particle_pool_size = 3, active_particles = 3, camera_x = 0, camera_y = 0\<rparr>"
  have h1: "active_particles ?w \<le> length (foreground_particles ?w)" by simp
  have h2: "length (foreground_particles ?w) = particle_pool_size ?w" by simp
  have h3: "filter (\<lambda>pt. 0 < pt_life pt)
              (map (age 1) (take (active_particles ?w) (foreground_particles ?w)))
            = [\<lparr>pt_x = 1, pt_y = 1, pt_size = 2, pt_vx = 1, pt_vy = 1, pt_life = 2, pt_color = 0\<rparr>,
               \<lparr>pt_x = 9, pt_y = 10, pt_size = 2, pt_vx = 0, pt_vy = 1, pt_life = 1, pt_color = 0\<rparr>]"
    by (simp add: age_def)
  from compaction_keeps_survivors_in_order [OF h1 h2, of 1] h3
  show ?thesis by (metis length_Cons list.size(3) One_nat_def Suc_1)
qed


section \<open>Spawning into a full pool\<close>

text \<open>
  C7 (amended). With the active count equal to the capacity, \<open>_add_dimension_particle\<close>
  does nothing: the world, and with it the pool and the count, comes back unchanged. Whatever
  the state, the pool keeps its length and its capacity, no error escapes, and the call hands
  back \<open>None\<close>.
\<close>

theorem spawn_at_capacity_is_noop:
  "(active_particles w = particle_pool_size w \<longrightarrow>
       add_dimension_particle rnd dimension player_x player_y w = (Py_None, w))
   \<and> fst (add_dimension_particle rnd dimension player_x player_y w) = Py_None
   \<and> length (foreground_particles (snd (add_dimension_particle rnd dimension player_x player_y w)))
       = length (foreground_particles w)
   \<and> particle_pool_size (snd (add_dimension_particle rnd dimension player_x player_y w))
       = particle_pool_size w"
  by (simp add: add_dimension_particle_def Let_def)

theorem spawn_at_capacity_is_noop_witness:
  "particle_pool_size (World\<lparr>active_particles := 300\<rparr>) = 300
   \<and> add_dimension_particle
        \<lparr>offset_x = 10, offset_y = - 20, size_draw = 3, vx_draw = 0, vy_draw = 0, life_draw = 2\<rparr>
        1 100 300 (World\<lparr>active_particles := 300\<rparr>)
      = (Py_None, World\<lparr>active_particles := 300\<rparr>)"
proof -
  have h: "active_particles (World\<lparr>active_particles := 300\<rparr>)
           = particle_pool_size (World\<lparr>active_particles := 300\<rparr>)"
    by (simp add: World_def)
  have c: "particle_pool_size (World\<lparr>active_particles := 300\<rparr>) = 300" by (simp add: World_def)
  from spawn_at_capacity_is_noop
         [of "World\<lparr>active_particles := 300\<rparr>"
             "\<lparr>offset_x = 10, offset_y = - 20, size_draw = 3, vx_draw = 0, vy_draw = 0, life_draw = 2\<rparr>"
             1 100 300] h c
  show ?thesis by blast
qed

text \<open>
  The claim as stated fails in one point: a full pool reports no failure. The call returns
  \<open>None\<close>, not \<open>False\<close>, and it returns the same \<open>None\<close> when it has stored a particle.
\<close>

theorem spawn_reports_no_failure:
  "active_particles (World\<lparr>active_particles := 300\<rparr>)
     = particle_pool_size (World\<lparr>active_particles := 300\<rparr>)
   \<and> fst (add_dimension_particle
        \<lparr>offset_x = 10, offset_y = - 20, size_draw = 3, vx_draw = 0, vy_draw = 0, life_draw = 2\<rparr>
        1 100 300 (World\<lparr>active_particles := 300\<rparr>)) \<noteq> Py_Bool False
   \<and> fst (add_dimension_particle
        \<lparr>offset_x = 10, offset_y = - 20, size_draw = 3, vx_draw = 0, vy_draw = 0, life_draw = 2\<rparr>
        1 100 300 (World\<lparr>active_particles := 300\<rparr>))
     = fst (add_dimension_particle
        \<lparr>offset_x = 10, offset_y = - 20, size_draw = 3, vx_draw = 0, vy_draw = 0, life_draw = 2\<rparr>
        1 100 300 World)
   \<and> active_particles (snd (add_dimension_particle
        \<lparr>offset_x = 10, offset_y = - 20, size_draw = 3, vx_draw = 0, vy_draw = 0, life_draw = 2\<rparr>
        1 100 300 World)) = 1"
  by (simp add: add_dimension_particle_def World_def Let_def)


section \<open>The time argument of the simulation\<close>




end
